theory Spec2Isabelle
  imports Main "HOL-Library.AList"
begin

section \<open>The session of goecsclient (session.go)\<close>

text \<open>
  A shallow embedding of \<^verbatim>\<open>session.go\<close>: the session record, the three request
  methods \<^verbatim>\<open>Get\<close>, \<^verbatim>\<open>Post\<close>, \<^verbatim>\<open>Put\<close>, the login \<^verbatim>\<open>performLogin\<close> with the
  refresh goroutine it starts, and the constructor \<^verbatim>\<open>createEcsSession\<close>.

  Go strings and byte slices are \<open>string\<close> (a list of bytes). A slice that can be
  \<^verbatim>\<open>nil\<close> is a \<open>string option\<close>, \<open>None\<close> being \<^verbatim>\<open>nil\<close>: the source tests
  \<^verbatim>\<open>bodyBytes != nil\<close>, which an empty slice passes. A Go pair \<^verbatim>\<open>(value, error)\<close>
  is a pair of options. A nil-pointer dereference is the outcome \<open>Panic\<close>.

  The calls of \<^verbatim>\<open>log\<close> and the deferred \<^verbatim>\<open>resp.Body.Close()\<close> change nothing a
  method returns or stores and are left out; \<^verbatim>\<open>log.Fatalln\<close>, which ends the process,
  is the outcome \<open>Fatal\<close> of the refresh goroutine.
\<close>

subsection \<open>Values of the standard library\<close>

datatype 'a outcome = Panic | Return 'a

text \<open>
  \<^verbatim>\<open>http.Header\<close> is \<^verbatim>\<open>map[string][]string\<close>: an association list, read with
  \<open>map_of\<close> and written with \<open>AList.update\<close>. \<^verbatim>\<open>Set\<close> and \<^verbatim>\<open>Get\<close> go through
  \<^verbatim>\<open>textproto.CanonicalMIMEHeaderKey\<close>: a key with a byte that is not a token byte of
  RFC 7230 is left as it is; otherwise the first letter and every letter after a hyphen
  are upper case and all other letters lower case.
\<close>

type_synonym Header = "(string \<times> string list) list"

definition validHeaderFieldByte :: "char \<Rightarrow> bool" where
  "validHeaderFieldByte c =
     (let n = (of_char c :: nat) in
      (48 \<le> n \<and> n \<le> 57) \<or> (97 \<le> n \<and> n \<le> 122) \<or> (65 \<le> n \<and> n \<le> 90) \<or>
      c \<in> set ''!#$%&*+-.^_`|~'' \<or> n = 39)"

fun canonicalBytes :: "bool \<Rightarrow> string \<Rightarrow> string" where
  "canonicalBytes upper [] = []"
| "canonicalBytes upper (c # cs) =
     (let n = (of_char c :: nat);
          c' = (if upper \<and> 97 \<le> n \<and> n \<le> 122 then char_of (n - 32)
                else if \<not> upper \<and> 65 \<le> n \<and> n \<le> 90 then char_of (n + 32)
                else c)
      in c' # canonicalBytes (c' = CHR ''-'') cs)"

definition CanonicalMIMEHeaderKey :: "string \<Rightarrow> string" where
  "CanonicalMIMEHeaderKey s =
     (if list_all validHeaderFieldByte s then canonicalBytes True s else s)"

definition Header_Set :: "Header \<Rightarrow> string \<Rightarrow> string \<Rightarrow> Header" where
  "Header_Set h key v = AList.update (CanonicalMIMEHeaderKey key) [v] h"

definition Header_Get :: "Header \<Rightarrow> string \<Rightarrow> string" where
  "Header_Get h key =
     (case map_of h (CanonicalMIMEHeaderKey key) of
        None \<Rightarrow> ''''
      | Some [] \<Rightarrow> ''''
      | Some (v # _) \<Rightarrow> v)"

text \<open>\<^verbatim>\<open>len(h)\<close> of the map: the number of its keys.\<close>

definition Header_len :: "Header \<Rightarrow> nat" where
  "Header_len h = length (remdups (map fst h))"

text \<open>
  \<^verbatim>\<open>strconv.ParseInt(s, 10, 64)\<close>: an optional sign, then one or more decimal digits,
  the value within \<open>int64\<close>. Every error (syntax or range) is \<open>None\<close>: the source only
  tests \<^verbatim>\<open>err != nil\<close>.
\<close>

fun parseDigits :: "int \<Rightarrow> string \<Rightarrow> int option" where
  "parseDigits acc [] = Some acc"
| "parseDigits acc (c # cs) =
     (let n = (of_char c :: int) in
      if 48 \<le> n \<and> n \<le> 57 then parseDigits (acc * 10 + (n - 48)) cs else None)"

definition ParseUint :: "string \<Rightarrow> int option" where
  "ParseUint s =
     (if s = [] then None
      else case parseDigits 0 s of
             None \<Rightarrow> None
           | Some un \<Rightarrow> if un < 2 ^ 64 then Some un else None)"

definition ParseInt :: "string \<Rightarrow> int option" where
  "ParseInt s =
     (case s of
        [] \<Rightarrow> None
      | c # cs \<Rightarrow>
          (let neg = (c = CHR ''-'');
               s' = (if c = CHR ''+'' \<or> c = CHR ''-'' then cs else s)
           in case ParseUint s' of
                None \<Rightarrow> None
              | Some un \<Rightarrow>
                  if \<not> neg \<and> un \<ge> 2 ^ 63 then None
                  else if neg \<and> un > 2 ^ 63 then None
                  else Some (if neg then - un else un)))"

text \<open>
  \<open>int64\<close> arithmetic: an \<open>int\<close> within \<open>-2^63 .. 2^63 - 1\<close>, a product wrapped by
  \<open>int64\<close>. \<^verbatim>\<open>time.Duration\<close> counts nanoseconds; \<^verbatim>\<open>time.Sleep\<close> returns at once on
  a duration that is zero or negative.
\<close>

definition int64 :: "int \<Rightarrow> int" where
  "int64 x = (x + 2 ^ 63) mod 2 ^ 64 - 2 ^ 63"

definition Second :: int where
  "Second = 1000000000"

definition Sleep :: "int \<Rightarrow> int" where
  \<comment> \<open>the nanoseconds \<^verbatim>\<open>time.Sleep(d)\<close> waits\<close>
  "Sleep d = (if d \<le> 0 then 0 else d)"

subsection \<open>Requests, responses and the environment\<close>

record URL =
  Raw :: string
  RawQuery :: string

record Request =
  Method :: string
  ReqURL :: URL
  ReqHeader :: Header
  ReqBody :: "string option"

text \<open>
  A response body is what \<^verbatim>\<open>io.ReadAll\<close> gets out of it: the bytes read and the read
  error, if any. \<open>Body = None\<close> is \<^verbatim>\<open>resp.Body == nil\<close>.
\<close>

type_synonym ReadCloser = "string \<times> string option"

record Response =
  Status :: string
  StatusCode :: int
  Header :: Header
  Body :: "ReadCloser option"

text \<open>\<^verbatim>\<open>url.Values\<close> is \<^verbatim>\<open>map[string][]string\<close>.\<close>

type_synonym Values = "(string \<times> string list) list"

text \<open>
  What the methods call outside the package:
  \<^verbatim>\<open>url.Parse\<close> (through \<^verbatim>\<open>http.NewRequest\<close>; \<open>Inl\<close> is its error),
  \<^verbatim>\<open>url.Values.Encode\<close>, the value \<^verbatim>\<open>SetBasicAuth\<close> writes for the credentials, and
  the round trip \<^verbatim>\<open>s.c.Do\<close> of the session's client (\<open>Inl\<close> is the transport error: no
  response was received).
\<close>

record env =
  url_Parse :: "string \<Rightarrow> string + URL"
  values_Encode :: "Values \<Rightarrow> string"
  basicAuth :: "string \<Rightarrow> string \<Rightarrow> string"
  client_Do :: "Request \<Rightarrow> string + Response"

text \<open>
  \<^verbatim>\<open>http.NewRequest(method, url, body)\<close> with one of the methods GET, POST, PUT: it
  fails exactly when the URL does not parse, and then returns \<^verbatim>\<open>(nil, err)\<close>. The new
  request has an empty header map.
\<close>

definition NewRequest :: "env \<Rightarrow> string \<Rightarrow> string \<Rightarrow> string option \<Rightarrow> Request option \<times> string option" where
  "NewRequest e method url body =
     (case url_Parse e url of
        Inl err \<Rightarrow> (None, Some err)
      | Inr u \<Rightarrow> (Some \<lparr>Method = method, ReqURL = u, ReqHeader = [], ReqBody = body\<rparr>, None))"

text \<open>
  \<^verbatim>\<open>io.ReadAll\<close> starts from \<^verbatim>\<open>make([]byte, 0, 512)\<close> and returns that slice, grown
  by what was read: never \<^verbatim>\<open>nil\<close>, also when nothing was read.
\<close>

definition ReadAll :: "ReadCloser \<Rightarrow> string option \<times> string option" where
  "ReadAll r = (Some (fst r), snd r)"

text \<open>\<^verbatim>\<open>req.URL.RawQuery = q.Encode()\<close> under \<^verbatim>\<open>q != nil\<close>.\<close>

definition setQuery :: "env \<Rightarrow> Values option \<Rightarrow> Request \<Rightarrow> Request" where
  "setQuery e q req =
     (case q of
        None \<Rightarrow> req
      | Some v \<Rightarrow> req\<lparr>ReqURL := (ReqURL req)\<lparr>RawQuery := values_Encode e v\<rparr>\<rparr>)"

definition setHeader :: "string \<Rightarrow> string \<Rightarrow> Request \<Rightarrow> Request" where
  "setHeader key v req = req\<lparr>ReqHeader := Header_Set (ReqHeader req) key v\<rparr>"

text \<open>
  \<^verbatim>\<open>for k, v := range headers { req.Header.Set(k, v) }\<close>: the list is the caller's
  map in the order the loop visits it.
\<close>

fun setHeaders :: "(string \<times> string) list \<Rightarrow> Request \<Rightarrow> Request" where
  "setHeaders [] req = req"
| "setHeaders ((k, v) # kvs) req = setHeaders kvs (setHeader k v req)"

subsection \<open>Errors\<close>

text \<open>
  Modelled from the spec: package \<^verbatim>\<open>errors\<close> of the repository (\<^verbatim>\<open>errors.ParseError\<close>,
  \<^verbatim>\<open>errors.Wrap\<close>) is not among the sources. The spec names them as the two
  error-construction entry points, "parse bytes to a structured error object" and "wrap
  a bare status line to a structured error object". An error value is the call that
  made it: \<open>ParseError b\<close> is \<^verbatim>\<open>errors.ParseError(b)\<close>, \<open>Wrap m\<close> is
  \<^verbatim>\<open>errors.Wrap(m)\<close>. \<open>StdError e\<close> is an error of the standard library (from
  \<^verbatim>\<open>Do\<close> or \<^verbatim>\<open>ReadAll\<close>) that the methods pass on as they got it.
\<close>

datatype error = StdError string | ParseError string | Wrap string

subsection \<open>The session\<close>

text \<open>
  The field \<^verbatim>\<open>c\<close>, the HTTP client, is \<open>client_Do\<close> of the environment. The methods
  have a pointer receiver; each returns the session as it leaves it.
\<close>

record ecsSession =
  Username :: string
  Password :: string
  Endpoint :: string
  Token :: string

definition TimeBufferInSeconds :: int where
  "TimeBufferInSeconds = 300"

type_synonym result = "string option \<times> error option"

subsection \<open>Get\<close>

text \<open>
  Lines 29 to 38: the request \<^verbatim>\<open>Get\<close> hands to \<^verbatim>\<open>s.c.Do\<close>. The error of
  \<^verbatim>\<open>http.NewRequest\<close> is dropped; on a \<^verbatim>\<open>nil\<close> request line 31 or line 33
  dereferences it.
\<close>

definition GetRequest :: "env \<Rightarrow> ecsSession \<Rightarrow> string \<Rightarrow> Values option \<Rightarrow> (string \<times> string) list \<Rightarrow> Request outcome" where
  "GetRequest e s subUrl q headers =
     (case fst (NewRequest e ''GET'' (Endpoint s @ subUrl) None) of
        None \<Rightarrow> Panic
      | Some req \<Rightarrow>
          Return (setHeaders headers
            (setHeader ''Accept'' ''application/json''
              (setHeader ''X-SDS-AUTH-TOKEN'' (Token s) (setQuery e q req)))))"

definition Get :: "env \<Rightarrow> ecsSession \<Rightarrow> string \<Rightarrow> Values option \<Rightarrow> (string \<times> string) list \<Rightarrow> (result \<times> ecsSession) outcome" where
  "Get e s subUrl q headers =
     (case GetRequest e s subUrl q headers of
        Panic \<Rightarrow> Panic
      | Return req \<Rightarrow>
          (case client_Do e req of
             Inl err \<Rightarrow> Return ((None, Some (StdError err)), s)
           | Inr resp \<Rightarrow>
               (let (bodyBytes, err) = (case Body resp of None \<Rightarrow> (None, None) | Some b \<Rightarrow> ReadAll b)
                in case err of
                     Some rerr \<Rightarrow> Return ((None, Some (StdError rerr)), s)
                   | None \<Rightarrow>
                       if StatusCode resp \<noteq> 200 then
                         (case bodyBytes of
                            Some b \<Rightarrow> Return ((None, Some (ParseError b)), s)
                          | None \<Rightarrow> Return ((None, Some (Wrap (Status resp))), s))
                       else Return ((bodyBytes, None), s))))"

subsection \<open>Post\<close>

definition PostRequest :: "env \<Rightarrow> ecsSession \<Rightarrow> string \<Rightarrow> string \<Rightarrow> Values option \<Rightarrow> (string \<times> string) list \<Rightarrow> Request outcome" where
  "PostRequest e s subUrl d q headers =
     (case fst (NewRequest e ''POST'' (Endpoint s @ subUrl) (Some d)) of
        None \<Rightarrow> Panic
      | Some req \<Rightarrow>
          Return (setHeaders headers
            (setHeader ''Accept'' ''application/json''
              (setHeader ''Content-Type'' ''application/json''
                (setHeader ''X-SDS-AUTH-TOKEN'' (Token s) (setQuery e q req))))))"

definition Post :: "env \<Rightarrow> ecsSession \<Rightarrow> string \<Rightarrow> string \<Rightarrow> Values option \<Rightarrow> (string \<times> string) list \<Rightarrow> (result \<times> ecsSession) outcome" where
  "Post e s subUrl d q headers =
     (case PostRequest e s subUrl d q headers of
        Panic \<Rightarrow> Panic
      | Return req \<Rightarrow>
          (case client_Do e req of
             Inl err \<Rightarrow> Return ((None, Some (StdError err)), s)
           | Inr resp \<Rightarrow>
               (let (bodyBytes, err) = (case Body resp of None \<Rightarrow> (None, None) | Some b \<Rightarrow> ReadAll b)
                in case err of
                     Some rerr \<Rightarrow> Return ((None, Some (StdError rerr)), s)
                   | None \<Rightarrow>
                       if StatusCode resp \<noteq> 200 \<and> StatusCode resp \<noteq> 201 then
                         (case bodyBytes of
                            Some b \<Rightarrow> Return ((None, Some (ParseError b)), s)
                          | None \<Rightarrow> Return ((None, Some (Wrap (Status resp))), s))
                       else Return ((bodyBytes, None), s))))"

subsection \<open>Put\<close>

definition PutRequest :: "env \<Rightarrow> ecsSession \<Rightarrow> string \<Rightarrow> string \<Rightarrow> Values option \<Rightarrow> Request outcome" where
  "PutRequest e s subUrl d q =
     (case fst (NewRequest e ''PUT'' (Endpoint s @ subUrl) (Some d)) of
        None \<Rightarrow> Panic
      | Some req \<Rightarrow>
          Return (setHeader ''Accept'' ''application/json''
            (setHeader ''Content-Type'' ''application/json''
              (setHeader ''X-SDS-AUTH-TOKEN'' (Token s) (setQuery e q req)))))"

definition Put :: "env \<Rightarrow> ecsSession \<Rightarrow> string \<Rightarrow> string \<Rightarrow> Values option \<Rightarrow> (result \<times> ecsSession) outcome" where
  "Put e s subUrl d q =
     (case PutRequest e s subUrl d q of
        Panic \<Rightarrow> Panic
      | Return req \<Rightarrow>
          (case client_Do e req of
             Inl err \<Rightarrow> Return ((None, Some (StdError err)), s)
           | Inr resp \<Rightarrow>
               (let (bodyBytes, err) = (case Body resp of None \<Rightarrow> (None, None) | Some b \<Rightarrow> ReadAll b)
                in case err of
                     Some rerr \<Rightarrow> Return ((None, Some (StdError rerr)), s)
                   | None \<Rightarrow>
                       if StatusCode resp \<noteq> 200 \<and> StatusCode resp \<noteq> 201 then
                         (case bodyBytes of
                            Some b \<Rightarrow> Return ((None, Some (ParseError b)), s)
                          | None \<Rightarrow> Return ((None, Some (Wrap (Status resp))), s))
                       else Return ((bodyBytes, None), s))))"

subsection \<open>performLogin and the refresh goroutine\<close>

text \<open>
  A goroutine started by \<^verbatim>\<open>performLogin\<close> is \<open>Refresh age\<close>, \<open>age\<close> being the
  variable its closure captures. \<open>refreshSleep age\<close> is the duration it hands to
  \<^verbatim>\<open>time.Sleep\<close> (lines 174 to 177), \<open>runRefresh\<close> what it does on waking (lines 178
  to 183): \<^verbatim>\<open>log.Fatalln\<close> ends the process.
\<close>

datatype goroutine = Refresh int

definition refreshSleep :: "int \<Rightarrow> int" where
  "refreshSleep age =
     (let age' = (if age > TimeBufferInSeconds then age - TimeBufferInSeconds else age)
      in int64 (age' * Second))"

text \<open>
  Lines 147 and 148. \<^verbatim>\<open>SetBasicAuth\<close> on a \<^verbatim>\<open>nil\<close> request dereferences it.
\<close>

definition LoginRequest :: "env \<Rightarrow> ecsSession \<Rightarrow> Request outcome" where
  "LoginRequest e s =
     (case fst (NewRequest e ''GET'' (Endpoint s @ ''/login'') None) of
        None \<Rightarrow> Panic
      | Some req \<Rightarrow>
          Return (setHeader ''Authorization'' (basicAuth e (Username s) (Password s)) req))"

text \<open>
  \<open>performLogin\<close> returns its error, the session, and the goroutines it started.
\<close>

definition performLogin :: "env \<Rightarrow> ecsSession \<Rightarrow> (error option \<times> ecsSession \<times> goroutine list) outcome" where
  "performLogin e s =
     (case LoginRequest e s of
        Panic \<Rightarrow> Panic
      | Return req \<Rightarrow>
          (case client_Do e req of
             Inl err \<Rightarrow> Return (Some (StdError err), s, [])
           | Inr resp \<Rightarrow>
               if StatusCode resp \<noteq> 200 then
                 Return (Some (Wrap ''login request failed, check endpoint or credentials''), s, [])
               else
                 (let (token, started) =
                        (if Header_len (Header resp) \<noteq> 0 then
                           (let token = Header_Get (Header resp) ''X-SDS-AUTH-TOKEN'';
                                maxAge = Header_Get (Header resp) ''X-SDS-AUTH-MAX-AGE''
                            in (token,
                                if maxAge \<noteq> '''' \<and> token \<noteq> '''' then
                                  (case ParseInt maxAge of
                                     None \<Rightarrow> []
                                   | Some age \<Rightarrow> [Refresh age])
                                else []))
                         else ('''', []))
                  in if token \<noteq> '''' then Return (None, s\<lparr>Token := token\<rparr>, started)
                     else Return (Some (Wrap ''Auth Token not available in response''), s, started))))"

datatype refreshed = RefreshPanic | Fatal | Refreshed ecsSession "goroutine list"

definition runRefresh :: "env \<Rightarrow> ecsSession \<Rightarrow> refreshed" where
  "runRefresh e s =
     (case performLogin e s of
        Panic \<Rightarrow> RefreshPanic
      | Return (err, s', started) \<Rightarrow>
          (case err of Some _ \<Rightarrow> Fatal | None \<Rightarrow> Refreshed s' started))"

subsection \<open>createEcsSession\<close>

definition createEcsSession :: "env \<Rightarrow> string \<Rightarrow> string \<Rightarrow> string \<Rightarrow> ((ecsSession option \<times> error option) \<times> goroutine list) outcome" where
  "createEcsSession e username password endpoint =
     (let s = \<lparr>Username = username, Password = password, Endpoint = endpoint, Token = ''''\<rparr>
      in case performLogin e s of
           Panic \<Rightarrow> Panic
         | Return (err, s', started) \<Rightarrow>
             (case err of
                Some er \<Rightarrow> Return ((None, Some er), started)
              | None \<Rightarrow> Return ((Some s', None), started)))"

subsection \<open>Notions of the specification\<close>



text \<open>
  The value the caller's headers give to a header name: that of the entry with the same
  canonical name that the loop visits last.
\<close>

fun callerValue :: "(string \<times> string) list \<Rightarrow> string \<Rightarrow> string option" where
  "callerValue [] key = None"
| "callerValue ((k, v) # kvs) key =
     (case callerValue kvs key of
        Some v' \<Rightarrow> Some v'
      | None \<Rightarrow>
          if CanonicalMIMEHeaderKey key = CanonicalMIMEHeaderKey k then Some v else None)"

text \<open>
  The error of a login by the words of the specification: a transport failure is passed
  on as it is, a status other than 200 is the generic login error, status 200 without a
  token is the missing-token error, anything else is success.
\<close>

definition loginError :: "string + Response \<Rightarrow> error option" where
  "loginError r =
     (case r of
        Inl terr \<Rightarrow> Some (StdError terr)
      | Inr resp \<Rightarrow>
          if StatusCode resp \<noteq> 200 then
            Some (Wrap ''login request failed, check endpoint or credentials'')
          else if Header_Get (Header resp) ''X-SDS-AUTH-TOKEN'' = '''' then
            Some (Wrap ''Auth Token not available in response'')
          else None)"

text \<open>
  The sessions a caller can observe: the one a successful \<open>createEcsSession\<close> returns,
  and a session after a login (the caller's or the refresh goroutine's) or a request
  on an observable session has returned.
\<close>

inductive observable :: "ecsSession \<Rightarrow> bool" where
  created: "createEcsSession e username password endpoint = Return ((Some s, None), g)
     \<Longrightarrow> observable s"
| login: "observable s \<Longrightarrow> performLogin e s = Return (err, s', g) \<Longrightarrow> observable s'"
| refresh: "observable s \<Longrightarrow> runRefresh e s = Refreshed s' g \<Longrightarrow> observable s'"
| get: "observable s \<Longrightarrow> Get e s subUrl q headers = Return (r, s') \<Longrightarrow> observable s'"
| post: "observable s \<Longrightarrow> Post e s subUrl d q headers = Return (r, s') \<Longrightarrow> observable s'"
| put: "observable s \<Longrightarrow> Put e s subUrl d q = Return (r, s') \<Longrightarrow> observable s'"

subsection \<open>A mock server\<close>

text \<open>
  An environment whose server answers every request with one response, or whose
  transport fails. Its \<open>url_Parse\<close> refuses a URL with an ASCII control byte, as
  \<^verbatim>\<open>url.Parse\<close> does first of all, and accepts every other.
\<close>

definition mockParse :: "string \<Rightarrow> string + URL" where
  "mockParse raw =
     (if list_ex (\<lambda>c. (of_char c :: nat) < 32 \<or> (of_char c :: nat) = 127) raw
      then Inl ''net/url: invalid control character in URL''
      else Inr \<lparr>Raw = raw, RawQuery = ''''\<rparr>)"

definition mockEnv :: "(string + Response) \<Rightarrow> env" where
  "mockEnv answer =
     \<lparr>url_Parse = mockParse,
      values_Encode = (\<lambda>v. ''''),
      basicAuth = (\<lambda>u p. ''Basic '' @ u @ '':'' @ p),
      client_Do = (\<lambda>req. answer)\<rparr>"

definition loginResponse :: "string \<Rightarrow> string \<Rightarrow> Response" where
  "loginResponse token maxAge =
     \<lparr>Status = ''200 OK'', StatusCode = 200,
      Header = [(''X-Sds-Auth-Token'', [token]), (''X-Sds-Auth-Max-Age'', [maxAge])],
      Body = Some ('''', None)\<rparr>"

definition plainResponse :: "int \<Rightarrow> string \<Rightarrow> string \<Rightarrow> Response" where
  "plainResponse code status body =
     \<lparr>Status = status, StatusCode = code,
      Header = [(''Content-Type'', [''application/json''])],
      Body = Some (body, None)\<rparr>"


definition session0 :: ecsSession where
  "session0 = \<lparr>Username = ''root'', Password = ''secret'', Endpoint = ''https://ecs:4443'', Token = ''''\<rparr>"

definition session1 :: ecsSession where
  "session1 = session0\<lparr>Token := ''abc''\<rparr>"

definition sessionNewline :: ecsSession where
  "sessionNewline = session1\<lparr>Endpoint := ''https://ecs:4443'' @ [CHR 0x0A]\<rparr>"

section \<open>Lemmas\<close>

subsection \<open>Headers\<close>

lemma Header_Get_Header_Set:
  "Header_Get (Header_Set h k v) key =
     (if CanonicalMIMEHeaderKey key = CanonicalMIMEHeaderKey k then v else Header_Get h key)"
  by (simp add: Header_Get_def Header_Set_def update_conv')

lemma Header_len_0: "Header_len h = 0 \<longleftrightarrow> h = []"
  by (simp add: Header_len_def)

lemma Header_Get_Nil: "Header_Get [] key = ''''"
  by (simp add: Header_Get_def)

lemma canonical_keys:
  "CanonicalMIMEHeaderKey ''X-SDS-AUTH-TOKEN'' = ''X-Sds-Auth-Token''"
  "CanonicalMIMEHeaderKey ''X-SDS-AUTH-MAX-AGE'' = ''X-Sds-Auth-Max-Age''"
  "CanonicalMIMEHeaderKey ''Accept'' = ''Accept''"
  "CanonicalMIMEHeaderKey ''Content-Type'' = ''Content-Type''"
  "CanonicalMIMEHeaderKey ''Authorization'' = ''Authorization''"
  "CanonicalMIMEHeaderKey ''x-sds-auth-token'' = ''X-Sds-Auth-Token''"
  "CanonicalMIMEHeaderKey ''X-Request-Id'' = ''X-Request-Id''"
  by code_simp+

lemma Header_Get_setHeader:
  "Header_Get (ReqHeader (setHeader k v req)) key =
     (if CanonicalMIMEHeaderKey key = CanonicalMIMEHeaderKey k then v
      else Header_Get (ReqHeader req) key)"
  by (simp add: setHeader_def Header_Get_Header_Set)

lemma Header_Get_setHeaders:
  "Header_Get (ReqHeader (setHeaders kvs req)) key =
     (case callerValue kvs key of Some v \<Rightarrow> v | None \<Rightarrow> Header_Get (ReqHeader req) key)"
proof (induction kvs arbitrary: req)
  case Nil
  show ?case by simp
next
  case (Cons kv kvs)
  obtain k v where kv: "kv = (k, v)" by (cases kv)
  show ?case
    unfolding kv by (simp add: Cons.IH Header_Get_setHeader split: option.splits)
qed

lemma ReqHeader_setQuery: "ReqHeader (setQuery e q req) = ReqHeader req"
  by (simp add: setQuery_def split: option.splits)

subsection \<open>The mock server, evaluated\<close>

lemma mockParse_ok:
  "mockParse ''https://ecs:4443/object/bucket'' =
     Inr \<lparr>Raw = ''https://ecs:4443/object/bucket'', RawQuery = ''''\<rparr>"
  "mockParse ''https://ecs:4443/login'' = Inr \<lparr>Raw = ''https://ecs:4443/login'', RawQuery = ''''\<rparr>"
  by (simp_all add: mockParse_def)

lemma mockParse_newline:
  "mockParse (''https://ecs:4443'' @ [CHR 0x0A] @ rest) =
     Inl ''net/url: invalid control character in URL''"
  by (simp add: mockParse_def)

lemma mock_GetRequest:
  "GetRequest (mockEnv a) session1 ''/object/bucket'' None [] =
     Return \<lparr>Method = ''GET'',
       ReqURL = \<lparr>Raw = ''https://ecs:4443/object/bucket'', RawQuery = ''''\<rparr>,
       ReqHeader = [(''X-Sds-Auth-Token'', [''abc'']), (''Accept'', [''application/json''])],
       ReqBody = None\<rparr>"
  by (simp add: GetRequest_def NewRequest_def mockEnv_def mockParse_ok session1_def session0_def
      setQuery_def setHeader_def Header_Set_def canonical_keys)

lemma mock_PostRequest:
  "PostRequest (mockEnv a) session1 ''/object/bucket'' ''{}'' None [] =
     Return \<lparr>Method = ''POST'',
       ReqURL = \<lparr>Raw = ''https://ecs:4443/object/bucket'', RawQuery = ''''\<rparr>,
       ReqHeader = [(''X-Sds-Auth-Token'', [''abc'']), (''Content-Type'', [''application/json'']),
         (''Accept'', [''application/json''])],
       ReqBody = Some ''{}''\<rparr>"
  by (simp add: PostRequest_def NewRequest_def mockEnv_def mockParse_ok session1_def session0_def
      setQuery_def setHeader_def Header_Set_def canonical_keys)

lemma mock_PutRequest:
  "PutRequest (mockEnv a) session1 ''/object/bucket'' ''{}'' None =
     Return \<lparr>Method = ''PUT'',
       ReqURL = \<lparr>Raw = ''https://ecs:4443/object/bucket'', RawQuery = ''''\<rparr>,
       ReqHeader = [(''X-Sds-Auth-Token'', [''abc'']), (''Content-Type'', [''application/json'']),
         (''Accept'', [''application/json''])],
       ReqBody = Some ''{}''\<rparr>"
  by (simp add: PutRequest_def NewRequest_def mockEnv_def mockParse_ok session1_def session0_def
      setQuery_def setHeader_def Header_Set_def canonical_keys)

lemma mock_LoginRequest:
  "LoginRequest (mockEnv a) session0 =
     Return \<lparr>Method = ''GET'', ReqURL = \<lparr>Raw = ''https://ecs:4443/login'', RawQuery = ''''\<rparr>,
       ReqHeader = [(''Authorization'', [''Basic root:secret''])],
       ReqBody = None\<rparr>"
  by (simp add: LoginRequest_def NewRequest_def mockEnv_def mockParse_ok session0_def
      setHeader_def Header_Set_def canonical_keys)

lemma mock_Do: "client_Do (mockEnv a) req = a"
  by (simp add: mockEnv_def)

lemma loginResponse_headers:
  "StatusCode (loginResponse token maxAge) = 200"
  "Header_Get (Header (loginResponse token maxAge)) ''X-SDS-AUTH-TOKEN'' = token"
  "Header_Get (Header (loginResponse token maxAge)) ''X-SDS-AUTH-MAX-AGE'' = maxAge"
  "Header_len (Header (loginResponse token maxAge)) = 2"
  by (simp_all add: loginResponse_def Header_Get_def Header_len_def canonical_keys)

lemma ParseInt_examples:
  "ParseInt ''400'' = Some 400"
  "ParseInt ''100'' = Some 100"
  "ParseInt ''soon'' = None"
  by (simp_all add: ParseInt_def ParseUint_def)

lemma ParseInt_Some_nonempty: "ParseInt m = Some age \<Longrightarrow> m \<noteq> ''''"
  by (auto simp: ParseInt_def)

subsection \<open>What each method does to the session\<close>

lemma performLogin_session:
  "performLogin e s = Return (err, s', g) \<Longrightarrow>
     (err = None \<longrightarrow> Token s' \<noteq> '''') \<and> (err \<noteq> None \<longrightarrow> s' = s)"
  by (auto simp: performLogin_def Let_def split: outcome.splits sum.splits if_splits)

lemma Get_session: "Get e s subUrl q headers = Return (r, s') \<Longrightarrow> s' = s"
  by (auto simp: Get_def split: outcome.splits sum.splits option.splits prod.splits if_splits)

lemma Post_session: "Post e s subUrl d q headers = Return (r, s') \<Longrightarrow> s' = s"
  by (auto simp: Post_def split: outcome.splits sum.splits option.splits prod.splits if_splits)

lemma Put_session: "Put e s subUrl d q = Return (r, s') \<Longrightarrow> s' = s"
  by (auto simp: Put_def split: outcome.splits sum.splits option.splits prod.splits if_splits)

lemma createEcsSession_Token:
  "createEcsSession e username password endpoint = Return ((Some s, None), g) \<Longrightarrow> Token s \<noteq> ''''"
  by (auto simp: createEcsSession_def Let_def dest: performLogin_session
      split: outcome.splits option.splits)

lemma runRefresh_Token: "runRefresh e s = Refreshed s' g \<Longrightarrow> Token s' \<noteq> ''''"
  by (auto simp: runRefresh_def dest: performLogin_session split: outcome.splits option.splits)

lemma observable_Token: "observable s \<Longrightarrow> Token s \<noteq> ''''"
proof (induction rule: observable.induct)
  case (created e username password endpoint s g)
  then show ?case by (rule createEcsSession_Token)
next
  case (login s e err s' g)
  then show ?case using performLogin_session [of e s err s' g] by (cases err) auto
next
  case (refresh s e s' g)
  then show ?case by (simp add: runRefresh_Token)
next
  case (get s e subUrl q headers r s')
  then show ?case using Get_session [of e s subUrl q headers r s'] by simp
next
  case (post s e subUrl d q headers r s')
  then show ?case using Post_session [of e s subUrl d q headers r s'] by simp
next
  case (put s e subUrl d q r s')
  then show ?case using Put_session [of e s subUrl d q r s'] by simp
qed

lemma mock_performLogin:
  "performLogin (mockEnv (Inr (loginResponse ''abc'' ''400''))) session0 =
     Return (None, session1, [Refresh 400])"
  "performLogin (mockEnv (Inr (loginResponse ''abc'' ''100''))) session0 =
     Return (None, session1, [Refresh 100])"
  "performLogin (mockEnv (Inr (loginResponse ''abc'' ''soon''))) session0 =
     Return (None, session1, [])"
  by (simp_all add: performLogin_def mock_LoginRequest mock_Do loginResponse_headers
      ParseInt_examples session1_def)

subsection \<open>Durations\<close>

lemma int64_in_range: "- (2 ^ 63) \<le> x \<Longrightarrow> x < 2 ^ 63 \<Longrightarrow> int64 x = x"
  by (simp add: int64_def)

lemma Sleep_seconds: "Sleep (d * Second) = max 0 d * Second"
  by (auto simp: Sleep_def Second_def max_def)

lemma refreshSleep_in_range:
  assumes "- 9223372036 \<le> age" and "age \<le> 9223372336"
  shows "refreshSleep age = (if age > 300 then age - 300 else age) * Second"
proof -
  define d where "d = (if age > 300 then age - 300 else age)"
  have "- 9223372036 \<le> d" and "d \<le> 9223372036"
    using assms by (auto simp: d_def)
  then have "- (2 ^ 63) \<le> d * Second" and "d * Second < 2 ^ 63"
    by (simp_all add: Second_def)
  then have "int64 (d * Second) = d * Second"
    by (rule int64_in_range)
  then show ?thesis
    by (auto simp: refreshSleep_def TimeBufferInSeconds_def d_def split: if_splits)
qed

lemma mock_LoginRequest_session1:
  "LoginRequest (mockEnv a) session1 =
     Return \<lparr>Method = ''GET'', ReqURL = \<lparr>Raw = ''https://ecs:4443/login'', RawQuery = ''''\<rparr>,
       ReqHeader = [(''Authorization'', [''Basic root:secret''])],
       ReqBody = None\<rparr>"
  by (simp add: LoginRequest_def NewRequest_def mockEnv_def mockParse_ok session1_def session0_def
      setHeader_def Header_Set_def canonical_keys)

subsection \<open>The headers of the requests\<close>

lemma GetRequest_Header_Get:
  "GetRequest e s subUrl q headers = Return req \<Longrightarrow>
     Header_Get (ReqHeader req) key =
       (case callerValue headers key of
          Some v \<Rightarrow> v
        | None \<Rightarrow>
            if CanonicalMIMEHeaderKey key = ''Accept'' then ''application/json''
            else if CanonicalMIMEHeaderKey key = ''X-Sds-Auth-Token'' then Token s
            else '''')"
  by (auto simp: GetRequest_def NewRequest_def Header_Get_setHeaders Header_Get_setHeader
      ReqHeader_setQuery Header_Get_Nil canonical_keys split: sum.splits option.splits)

lemma PostRequest_Header_Get:
  "PostRequest e s subUrl d q headers = Return req \<Longrightarrow>
     Header_Get (ReqHeader req) key =
       (case callerValue headers key of
          Some v \<Rightarrow> v
        | None \<Rightarrow>
            if CanonicalMIMEHeaderKey key = ''Accept'' then ''application/json''
            else if CanonicalMIMEHeaderKey key = ''Content-Type'' then ''application/json''
            else if CanonicalMIMEHeaderKey key = ''X-Sds-Auth-Token'' then Token s
            else '''')"
  by (auto simp: PostRequest_def NewRequest_def Header_Get_setHeaders Header_Get_setHeader
      ReqHeader_setQuery Header_Get_Nil canonical_keys split: sum.splits option.splits)

lemma PutRequest_ReqHeader:
  "PutRequest e s subUrl d q = Return req \<Longrightarrow>
     ReqHeader req = [(''X-Sds-Auth-Token'', [Token s]), (''Content-Type'', [''application/json'']),
       (''Accept'', [''application/json''])]"
  by (auto simp: PutRequest_def NewRequest_def setHeader_def Header_Set_def ReqHeader_setQuery
      canonical_keys split: sum.splits)

section \<open>The claims\<close>

subsection \<open>C1: the refresh is scheduled once, after the computed delay\<close>

text \<open>
  Claim C1, as the code has it. A login that gets status 200, a non-empty token header
  and a max-age header that parses as an integer \<open>age\<close> starts exactly one refresh
  goroutine. The duration it sleeps is \<open>max 0 d\<close> seconds, where \<open>d = age - 300\<close> when
  \<open>age > 300\<close> and \<open>d = age\<close> otherwise: the buffer of 300 seconds is only taken off
  a max-age above 300. This is for \<open>age\<close> from \<open>-9223372036\<close> to \<open>9223372336\<close>;
  outside, the \<open>int64\<close> count of nanoseconds wraps.
\<close>

theorem C1_refresh_scheduled_once:
  assumes "LoginRequest e s = Return req"
    and "client_Do e req = Inr resp"
    and "StatusCode resp = 200"
    and "Header_Get (Header resp) ''X-SDS-AUTH-TOKEN'' \<noteq> ''''"
    and "ParseInt (Header_Get (Header resp) ''X-SDS-AUTH-MAX-AGE'') = Some age"
  shows "performLogin e s =
           Return (None, s\<lparr>Token := Header_Get (Header resp) ''X-SDS-AUTH-TOKEN''\<rparr>, [Refresh age]) \<and>
         (- 9223372036 \<le> age \<and> age \<le> 9223372336 \<longrightarrow>
            Sleep (refreshSleep age) = max 0 (if age > 300 then age - 300 else age) * Second)"
proof -
  have nonempty: "Header_Get (Header resp) ''X-SDS-AUTH-MAX-AGE'' \<noteq> ''''"
    using assms(5) by (rule ParseInt_Some_nonempty)
  have "Header resp \<noteq> []"
    using assms(4) by (auto simp: Header_Get_Nil)
  then have "Header_len (Header resp) \<noteq> 0"
    by (simp add: Header_len_0)
  then have "performLogin e s =
      Return (None, s\<lparr>Token := Header_Get (Header resp) ''X-SDS-AUTH-TOKEN''\<rparr>, [Refresh age])"
    using assms nonempty by (simp add: performLogin_def)
  then show ?thesis
    by (simp add: refreshSleep_in_range Sleep_seconds)
qed

theorem C1_witness:
  "LoginRequest (mockEnv (Inr (loginResponse ''abc'' ''400''))) session0 =
     Return \<lparr>Method = ''GET'', ReqURL = \<lparr>Raw = ''https://ecs:4443/login'', RawQuery = ''''\<rparr>,
       ReqHeader = [(''Authorization'', [''Basic root:secret''])], ReqBody = None\<rparr> \<and>
   ParseInt ''400'' = Some 400 \<and>
   performLogin (mockEnv (Inr (loginResponse ''abc'' ''400''))) session0 =
     Return (None, session0\<lparr>Token := ''abc''\<rparr>, [Refresh 400]) \<and>
   Sleep (refreshSleep 400) = 100 * Second"
  using C1_refresh_scheduled_once [of "mockEnv (Inr (loginResponse ''abc'' ''400''))" session0
      "\<lparr>Method = ''GET'', ReqURL = \<lparr>Raw = ''https://ecs:4443/login'', RawQuery = ''''\<rparr>,
        ReqHeader = [(''Authorization'', [''Basic root:secret''])], ReqBody = None\<rparr>"
      "loginResponse ''abc'' ''400''" 400]
  by (simp add: mock_LoginRequest mock_Do loginResponse_headers ParseInt_examples)

text \<open>
  The claim as stated fails at a max-age of 100 seconds: the goroutine sleeps 100
  seconds, not \<open>max 0 (100 - 300) = 0\<close>.
\<close>

theorem C1_counterexample:
  "performLogin (mockEnv (Inr (loginResponse ''abc'' ''100''))) session0 =
     Return (None, session0\<lparr>Token := ''abc''\<rparr>, [Refresh 100]) \<and>
   Sleep (refreshSleep 100) = 100 * Second \<and>
   Sleep (refreshSleep 100) \<noteq> max 0 (100 - TimeBufferInSeconds) * Second"
  by (simp add: mock_performLogin session1_def refreshSleep_in_range Sleep_def
      TimeBufferInSeconds_def Second_def)

subsection \<open>C2: the error of a non-success status\<close>

text \<open>
  Claim C2 at a response with status 404 and an empty body. The body is not
  \<^verbatim>\<open>nil\<close> and \<^verbatim>\<open>io.ReadAll\<close> returns an empty slice that is not \<^verbatim>\<open>nil\<close>, so each of
  the three methods returns \<^verbatim>\<open>errors.ParseError\<close> of no bytes, not \<^verbatim>\<open>errors.Wrap\<close> of
  the status line.
\<close>

theorem C2_empty_body_is_parsed:
  "Get (mockEnv (Inr (plainResponse 404 ''404 Not Found'' ''''))) session1 ''/object/bucket'' None [] =
     Return ((None, Some (ParseError '''')), session1) \<and>
   Post (mockEnv (Inr (plainResponse 404 ''404 Not Found'' ''''))) session1 ''/object/bucket'' ''{}'' None [] =
     Return ((None, Some (ParseError '''')), session1) \<and>
   Put (mockEnv (Inr (plainResponse 404 ''404 Not Found'' ''''))) session1 ''/object/bucket'' ''{}'' None =
     Return ((None, Some (ParseError '''')), session1) \<and>
   ParseError '''' \<noteq> Wrap ''404 Not Found''"
  by (simp add: Get_def Post_def Put_def mock_GetRequest mock_PostRequest mock_PutRequest mock_Do
      plainResponse_def ReadAll_def)

subsection \<open>C3: when a login succeeds\<close>

text \<open>
  Claim C3. \<open>performLogin\<close> returns no error and leaves the session \<open>s'\<close> if and only if
  the request got a response with status 200 and a non-empty \<^verbatim>\<open>X-SDS-AUTH-TOKEN\<close>
  header, and \<open>s'\<close> is the session with that header value as its \<open>Token\<close>: the token is
  stored by the time the call returns.
\<close>

theorem C3_login_success:
  "(\<exists>g. performLogin e s = Return (None, s', g)) \<longleftrightarrow>
     (\<exists>req resp. LoginRequest e s = Return req \<and> client_Do e req = Inr resp \<and>
        StatusCode resp = 200 \<and> Header_Get (Header resp) ''X-SDS-AUTH-TOKEN'' \<noteq> '''' \<and>
        s' = s\<lparr>Token := Header_Get (Header resp) ''X-SDS-AUTH-TOKEN''\<rparr>)"
  by (auto simp: performLogin_def Let_def Header_len_0 Header_Get_Nil
      split: outcome.splits sum.splits if_splits)

theorem C3_witness:
  "\<exists>g. performLogin (mockEnv (Inr (loginResponse ''abc'' ''400''))) session0 =
     Return (None, session0\<lparr>Token := ''abc''\<rparr>, g)"
proof -
  have "\<exists>req resp. LoginRequest (mockEnv (Inr (loginResponse ''abc'' ''400''))) session0 = Return req \<and>
      client_Do (mockEnv (Inr (loginResponse ''abc'' ''400''))) req = Inr resp \<and>
      StatusCode resp = 200 \<and> Header_Get (Header resp) ''X-SDS-AUTH-TOKEN'' \<noteq> '''' \<and>
      session0\<lparr>Token := ''abc''\<rparr> = session0\<lparr>Token := Header_Get (Header resp) ''X-SDS-AUTH-TOKEN''\<rparr>"
    by (simp add: mock_LoginRequest mock_Do loginResponse_headers)
  then show ?thesis
    by (simp only: C3_login_success)
qed

subsection \<open>C4: the error of a failed login\<close>

text \<open>
  Claim C4. Once the login request is built, the error \<open>performLogin\<close> returns is
  \<open>loginError\<close> of what the transport gave: the transport's own error as it is; for a
  status other than 200 \<^verbatim>\<open>errors.Wrap("login request failed, check endpoint or
  credentials")\<close>; for status 200 with no or an empty token header
  \<^verbatim>\<open>errors.Wrap("Auth Token not available in response")\<close>.
\<close>

theorem C4_login_error:
  "LoginRequest e s = Return req \<Longrightarrow>
     \<exists>s' g. performLogin e s = Return (loginError (client_Do e req), s', g)"
  by (auto simp: performLogin_def loginError_def Let_def Header_len_0 Header_Get_Nil
      split: sum.splits)

theorem C4_witness:
  "(\<exists>s' g. performLogin (mockEnv (Inl ''dial tcp: connection refused'')) session0 =
      Return (Some (StdError ''dial tcp: connection refused''), s', g)) \<and>
   (\<exists>s' g. performLogin (mockEnv (Inr (plainResponse 401 ''401 Unauthorized'' ''denied''))) session0 =
      Return (Some (Wrap ''login request failed, check endpoint or credentials''), s', g)) \<and>
   (\<exists>s' g. performLogin (mockEnv (Inr (loginResponse '''' ''400''))) session0 =
      Return (Some (Wrap ''Auth Token not available in response''), s', g))"
  using
    C4_login_error [OF mock_LoginRequest, of "Inl ''dial tcp: connection refused''"]
    C4_login_error [OF mock_LoginRequest, of "Inr (plainResponse 401 ''401 Unauthorized'' ''denied'')"]
    C4_login_error [OF mock_LoginRequest, of "Inr (loginResponse '''' ''400'')"]
  by (simp add: mock_Do loginError_def loginResponse_headers plainResponse_def)

subsection \<open>C5: the success statuses and the bytes returned\<close>




subsection \<open>C6: the token of an observable session is never empty\<close>

text \<open>
  Claim C6. The session a successful \<open>createEcsSession\<close> returns has a non-empty
  \<open>Token\<close>, and so has every observable session: \<open>performLogin\<close> writes \<open>Token\<close> only
  on success, with a non-empty value, and leaves the session as it was when it fails;
  \<open>Get\<close>, \<open>Post\<close> and \<open>Put\<close> leave the session as it was.
\<close>

theorem C6_token_never_empty:
  "(createEcsSession e username password endpoint = Return ((Some s0, None), g0) \<longrightarrow>
      Token s0 \<noteq> '''') \<and>
   (observable s \<longrightarrow> Token s \<noteq> '''') \<and>
   (performLogin e s = Return (None, s', g) \<longrightarrow> Token s' \<noteq> '''') \<and>
   (performLogin e s = Return (Some err, s', g) \<longrightarrow> s' = s) \<and>
   (Get e s subUrl q headers = Return (r, s') \<longrightarrow> s' = s) \<and>
   (Post e s subUrl d q headers = Return (r, s') \<longrightarrow> s' = s) \<and>
   (Put e s subUrl d q = Return (r, s') \<longrightarrow> s' = s)"
proof (intro conjI impI)
  assume "createEcsSession e username password endpoint = Return ((Some s0, None), g0)"
  then show "Token s0 \<noteq> ''''" by (rule createEcsSession_Token)
next
  assume "observable s"
  then show "Token s \<noteq> ''''" by (rule observable_Token)
next
  assume "performLogin e s = Return (None, s', g)"
  then show "Token s' \<noteq> ''''" using performLogin_session by blast
next
  assume "performLogin e s = Return (Some err, s', g)"
  then show "s' = s" using performLogin_session by blast
next
  assume "Get e s subUrl q headers = Return (r, s')"
  then show "s' = s" by (rule Get_session)
next
  assume "Post e s subUrl d q headers = Return (r, s')"
  then show "s' = s" by (rule Post_session)
next
  assume "Put e s subUrl d q = Return (r, s')"
  then show "s' = s" by (rule Put_session)
qed

theorem C6_witness:
  "createEcsSession (mockEnv (Inr (loginResponse ''abc'' ''400''))) ''root'' ''secret'' ''https://ecs:4443'' =
     Return ((Some session1, None), [Refresh 400]) \<and>
   observable session1 \<and>
   Token session1 \<noteq> '''' \<and>
   observable (session1\<lparr>Token := ''xyz''\<rparr>) \<and>
   Token (session1\<lparr>Token := ''xyz''\<rparr>) \<noteq> ''''"
proof -
  have c: "createEcsSession (mockEnv (Inr (loginResponse ''abc'' ''400''))) ''root'' ''secret''
      ''https://ecs:4443'' = Return ((Some session1, None), [Refresh 400])"
    using mock_performLogin(1) by (simp add: createEcsSession_def session0_def)
  then have o1: "observable session1"
    by (rule observable.created)
  have "runRefresh (mockEnv (Inr (loginResponse ''xyz'' ''400''))) session1 =
      Refreshed (session1\<lparr>Token := ''xyz''\<rparr>) [Refresh 400]"
    by (simp add: runRefresh_def performLogin_def mock_LoginRequest_session1 mock_Do
        loginResponse_headers ParseInt_examples)
  with o1 have o2: "observable (session1\<lparr>Token := ''xyz''\<rparr>)"
    by (rule observable.refresh)
  show ?thesis
    using c o1 o2
      C6_token_never_empty [of "mockEnv (Inr (loginResponse ''abc'' ''400''))" "''root''" "''secret''"
        "''https://ecs:4443''" session1 "[Refresh 400]" session1]
      C6_token_never_empty [of "mockEnv (Inr (loginResponse ''abc'' ''400''))" "''root''" "''secret''"
        "''https://ecs:4443''" session1 "[Refresh 400]" "session1\<lparr>Token := ''xyz''\<rparr>"]
    by simp
qed

subsection \<open>C7: the headers of a request\<close>

text \<open>
  Claim C7, as the code has it. The caller's headers are set after the method's own, so
  a caller's header replaces the token, \<^verbatim>\<open>Accept\<close> or \<^verbatim>\<open>Content-Type\<close> of the same
  canonical name. A request of \<open>Get\<close> carries \<^verbatim>\<open>X-SDS-AUTH-TOKEN\<close> with the session's
  token and \<^verbatim>\<open>Accept: application/json\<close>, each unless the caller gives a header of that
  name; a request of \<open>Post\<close> carries these and \<^verbatim>\<open>Content-Type: application/json\<close>, each
  unless the caller gives a header of that name; both carry every header the caller
  gives. A request of \<open>Put\<close>, which takes no headers, carries exactly the three.
\<close>

theorem C7_request_headers:
  "(GetRequest e s subUrl q headers = Return req \<longrightarrow>
      (callerValue headers ''X-SDS-AUTH-TOKEN'' = None \<longrightarrow>
         Header_Get (ReqHeader req) ''X-SDS-AUTH-TOKEN'' = Token s) \<and>
      (callerValue headers ''Accept'' = None \<longrightarrow>
         Header_Get (ReqHeader req) ''Accept'' = ''application/json'') \<and>
      (callerValue headers key = Some v \<longrightarrow> Header_Get (ReqHeader req) key = v)) \<and>
   (PostRequest e s subUrl d q headers = Return req' \<longrightarrow>
      (callerValue headers ''X-SDS-AUTH-TOKEN'' = None \<longrightarrow>
         Header_Get (ReqHeader req') ''X-SDS-AUTH-TOKEN'' = Token s) \<and>
      (callerValue headers ''Accept'' = None \<longrightarrow>
         Header_Get (ReqHeader req') ''Accept'' = ''application/json'') \<and>
      (callerValue headers ''Content-Type'' = None \<longrightarrow>
         Header_Get (ReqHeader req') ''Content-Type'' = ''application/json'') \<and>
      (callerValue headers key = Some v \<longrightarrow> Header_Get (ReqHeader req') key = v)) \<and>
   (PutRequest e s subUrl d q = Return req'' \<longrightarrow>
      Header_Get (ReqHeader req'') ''X-SDS-AUTH-TOKEN'' = Token s \<and>
      Header_Get (ReqHeader req'') ''Accept'' = ''application/json'' \<and>
      Header_Get (ReqHeader req'') ''Content-Type'' = ''application/json'' \<and>
      Header_len (ReqHeader req'') = 3)"
proof (intro conjI impI)
  assume "PutRequest e s subUrl d q = Return req''"
  then have h: "ReqHeader req'' = [(''X-Sds-Auth-Token'', [Token s]),
      (''Content-Type'', [''application/json'']), (''Accept'', [''application/json''])]"
    by (rule PutRequest_ReqHeader)
  show "Header_Get (ReqHeader req'') ''X-SDS-AUTH-TOKEN'' = Token s"
    by (simp add: h Header_Get_def canonical_keys)
  show "Header_Get (ReqHeader req'') ''Accept'' = ''application/json''"
    by (simp add: h Header_Get_def canonical_keys)
  show "Header_Get (ReqHeader req'') ''Content-Type'' = ''application/json''"
    by (simp add: h Header_Get_def canonical_keys)
  show "Header_len (ReqHeader req'') = 3"
    by (simp add: h Header_len_def)
next
  assume g: "GetRequest e s subUrl q headers = Return req"
  {
    assume "callerValue headers ''X-SDS-AUTH-TOKEN'' = None"
    then show "Header_Get (ReqHeader req) ''X-SDS-AUTH-TOKEN'' = Token s"
      by (simp add: GetRequest_Header_Get [OF g] canonical_keys)
  next
    assume "callerValue headers ''Accept'' = None"
    then show "Header_Get (ReqHeader req) ''Accept'' = ''application/json''"
      by (simp add: GetRequest_Header_Get [OF g] canonical_keys)
  next
    assume "callerValue headers key = Some v"
    then show "Header_Get (ReqHeader req) key = v"
      by (simp add: GetRequest_Header_Get [OF g])
  }
next
  assume p: "PostRequest e s subUrl d q headers = Return req'"
  {
    assume "callerValue headers ''X-SDS-AUTH-TOKEN'' = None"
    then show "Header_Get (ReqHeader req') ''X-SDS-AUTH-TOKEN'' = Token s"
      by (simp add: PostRequest_Header_Get [OF p] canonical_keys)
  next
    assume "callerValue headers ''Accept'' = None"
    then show "Header_Get (ReqHeader req') ''Accept'' = ''application/json''"
      by (simp add: PostRequest_Header_Get [OF p] canonical_keys)
  next
    assume "callerValue headers ''Content-Type'' = None"
    then show "Header_Get (ReqHeader req') ''Content-Type'' = ''application/json''"
      by (simp add: PostRequest_Header_Get [OF p] canonical_keys)
  next
    assume "callerValue headers key = Some v"
    then show "Header_Get (ReqHeader req') key = v"
      by (simp add: PostRequest_Header_Get [OF p])
  }
qed

theorem C7_witness:
  "GetRequest (mockEnv (Inl ''down'')) session1 ''/object/bucket'' None [(''X-Request-Id'', ''7'')] =
     Return \<lparr>Method = ''GET'',
       ReqURL = \<lparr>Raw = ''https://ecs:4443/object/bucket'', RawQuery = ''''\<rparr>,
       ReqHeader = [(''X-Sds-Auth-Token'', [''abc'']), (''Accept'', [''application/json'']),
         (''X-Request-Id'', [''7''])],
       ReqBody = None\<rparr> \<and>
   callerValue [(''X-Request-Id'', ''7'')] ''X-SDS-AUTH-TOKEN'' = None \<and>
   callerValue [(''X-Request-Id'', ''7'')] ''Accept'' = None \<and>
   callerValue [(''X-Request-Id'', ''7'')] ''X-Request-Id'' = Some ''7'' \<and>
   Header_Get [(''X-Sds-Auth-Token'', [''abc'']), (''Accept'', [''application/json'']),
     (''X-Request-Id'', [''7''])] ''X-SDS-AUTH-TOKEN'' = Token session1 \<and>
   Header_Get [(''X-Sds-Auth-Token'', [''abc'']), (''Accept'', [''application/json'']),
     (''X-Request-Id'', [''7''])] ''Accept'' = ''application/json'' \<and>
   Header_Get [(''X-Sds-Auth-Token'', [''abc'']), (''Accept'', [''application/json'']),
     (''X-Request-Id'', [''7''])] ''X-Request-Id'' = ''7'' \<and>
   Header_Get [(''X-Sds-Auth-Token'', [''abc'']), (''Content-Type'', [''application/json'']),
     (''Accept'', [''application/json''])] ''Content-Type'' = ''application/json''"
proof -
  have g: "GetRequest (mockEnv (Inl ''down'')) session1 ''/object/bucket'' None
      [(''X-Request-Id'', ''7'')] =
     Return \<lparr>Method = ''GET'',
       ReqURL = \<lparr>Raw = ''https://ecs:4443/object/bucket'', RawQuery = ''''\<rparr>,
       ReqHeader = [(''X-Sds-Auth-Token'', [''abc'']), (''Accept'', [''application/json'']),
         (''X-Request-Id'', [''7''])],
       ReqBody = None\<rparr>"
    by (simp add: GetRequest_def NewRequest_def mockEnv_def mockParse_ok session1_def session0_def
        setQuery_def setHeader_def Header_Set_def canonical_keys)
  have cv: "callerValue [(''X-Request-Id'', ''7'')] ''X-SDS-AUTH-TOKEN'' = None"
    "callerValue [(''X-Request-Id'', ''7'')] ''Accept'' = None"
    "callerValue [(''X-Request-Id'', ''7'')] ''X-Request-Id'' = Some ''7''"
    by (simp_all add: canonical_keys)
  show ?thesis
    using g cv mock_PutRequest [of "Inl ''down''"]
      C7_request_headers [of "mockEnv (Inl ''down'')" session1 "''/object/bucket''" None
        "[(''X-Request-Id'', ''7'')]"
        "\<lparr>Method = ''GET'',
          ReqURL = \<lparr>Raw = ''https://ecs:4443/object/bucket'', RawQuery = ''''\<rparr>,
          ReqHeader = [(''X-Sds-Auth-Token'', [''abc'']), (''Accept'', [''application/json'']),
            (''X-Request-Id'', [''7''])],
          ReqBody = None\<rparr>"
        "''X-Request-Id''" "''7''" "''{}''" req'
        "\<lparr>Method = ''PUT'',
          ReqURL = \<lparr>Raw = ''https://ecs:4443/object/bucket'', RawQuery = ''''\<rparr>,
          ReqHeader = [(''X-Sds-Auth-Token'', [''abc'']), (''Content-Type'', [''application/json'']),
            (''Accept'', [''application/json''])],
          ReqBody = Some ''{}''\<rparr>"]
    by simp
qed

text \<open>
  The claim as stated fails for \<open>Get\<close> when the caller gives headers named
  \<^verbatim>\<open>x-sds-auth-token\<close> and \<^verbatim>\<open>Accept\<close>: the request carries the caller's values, not
  the session's token and not \<^verbatim>\<open>application/json\<close>.
\<close>

theorem C7_counterexample:
  "GetRequest (mockEnv (Inl ''down'')) session1 ''/object/bucket'' None
     [(''x-sds-auth-token'', ''other''), (''Accept'', ''application/xml'')] =
     Return \<lparr>Method = ''GET'',
       ReqURL = \<lparr>Raw = ''https://ecs:4443/object/bucket'', RawQuery = ''''\<rparr>,
       ReqHeader = [(''X-Sds-Auth-Token'', [''other'']), (''Accept'', [''application/xml''])],
       ReqBody = None\<rparr> \<and>
   Header_Get [(''X-Sds-Auth-Token'', [''other'']), (''Accept'', [''application/xml''])]
     ''X-SDS-AUTH-TOKEN'' = ''other'' \<and>
   Header_Get [(''X-Sds-Auth-Token'', [''other'']), (''Accept'', [''application/xml''])]
     ''Accept'' = ''application/xml'' \<and>
   Token session1 = ''abc''"
  by (simp add: GetRequest_def NewRequest_def mockEnv_def mockParse_ok session1_def session0_def
      setQuery_def setHeader_def Header_Set_def Header_Get_def canonical_keys)

subsection \<open>C8: no refresh without a usable max-age\<close>

text \<open>
  Claim C8. When the response has no \<^verbatim>\<open>X-SDS-AUTH-MAX-AGE\<close> header, or one that does
  not parse as an integer, \<open>performLogin\<close> starts no goroutine; with status 200 and a
  non-empty token header it still succeeds and stores the token.
\<close>

theorem C8_no_refresh_without_max_age:
  assumes "LoginRequest e s = Return req"
    and "client_Do e req = Inr resp"
    and "Header_Get (Header resp) ''X-SDS-AUTH-MAX-AGE'' = '''' \<or>
         ParseInt (Header_Get (Header resp) ''X-SDS-AUTH-MAX-AGE'') = None"
  shows "(\<exists>err s'. performLogin e s = Return (err, s', [])) \<and>
         (StatusCode resp = 200 \<and> Header_Get (Header resp) ''X-SDS-AUTH-TOKEN'' \<noteq> '''' \<longrightarrow>
            performLogin e s =
              Return (None, s\<lparr>Token := Header_Get (Header resp) ''X-SDS-AUTH-TOKEN''\<rparr>, []))"
  using assms by (auto simp: performLogin_def Let_def Header_len_0 Header_Get_Nil)

theorem C8_witness:
  "ParseInt ''soon'' = None \<and>
   performLogin (mockEnv (Inr (loginResponse ''abc'' ''soon''))) session0 =
     Return (None, session0\<lparr>Token := ''abc''\<rparr>, []) \<and>
   performLogin (mockEnv (Inr (loginResponse ''abc'' ''''))) session0 =
     Return (None, session0\<lparr>Token := ''abc''\<rparr>, [])"
  using
    C8_no_refresh_without_max_age [OF mock_LoginRequest, of "Inr (loginResponse ''abc'' ''soon'')"
      "loginResponse ''abc'' ''soon''"]
    C8_no_refresh_without_max_age [OF mock_LoginRequest, of "Inr (loginResponse ''abc'' '''')"
      "loginResponse ''abc'' ''''"]
  by (simp add: mock_Do loginResponse_headers ParseInt_examples)

subsection \<open>C9: a request that cannot be built\<close>

text \<open>
  Claim C9. The four methods drop the error of \<^verbatim>\<open>http.NewRequest\<close>. When it returns
  an error the request is \<^verbatim>\<open>nil\<close>, and the method panics on its next use of the
  request instead of returning the error.
\<close>

theorem C9_nil_request_panics:
  "(snd (NewRequest e ''GET'' (Endpoint s @ subUrl) None) \<noteq> None \<longrightarrow>
      fst (NewRequest e ''GET'' (Endpoint s @ subUrl) None) = None \<and>
      Get e s subUrl q headers = Panic) \<and>
   (snd (NewRequest e ''POST'' (Endpoint s @ subUrl) (Some d)) \<noteq> None \<longrightarrow>
      fst (NewRequest e ''POST'' (Endpoint s @ subUrl) (Some d)) = None \<and>
      Post e s subUrl d q headers = Panic) \<and>
   (snd (NewRequest e ''PUT'' (Endpoint s @ subUrl) (Some d)) \<noteq> None \<longrightarrow>
      fst (NewRequest e ''PUT'' (Endpoint s @ subUrl) (Some d)) = None \<and>
      Put e s subUrl d q = Panic) \<and>
   (snd (NewRequest e ''GET'' (Endpoint s @ ''/login'') None) \<noteq> None \<longrightarrow>
      fst (NewRequest e ''GET'' (Endpoint s @ ''/login'') None) = None \<and>
      performLogin e s = Panic)"
  by (auto simp: NewRequest_def Get_def GetRequest_def Post_def PostRequest_def Put_def
      PutRequest_def performLogin_def LoginRequest_def split: sum.splits)

theorem C9_witness:
  "snd (NewRequest (mockEnv (Inr (loginResponse ''abc'' ''400''))) ''GET''
     (Endpoint sessionNewline @ ''/login'') None) =
     Some ''net/url: invalid control character in URL'' \<and>
   Get (mockEnv (Inr (loginResponse ''abc'' ''400''))) sessionNewline ''/object/bucket'' None [] = Panic \<and>
   Post (mockEnv (Inr (loginResponse ''abc'' ''400''))) sessionNewline ''/object/bucket'' ''{}'' None [] = Panic \<and>
   Put (mockEnv (Inr (loginResponse ''abc'' ''400''))) sessionNewline ''/object/bucket'' ''{}'' None = Panic \<and>
   performLogin (mockEnv (Inr (loginResponse ''abc'' ''400''))) sessionNewline = Panic"
proof -
  have "\<And>m rest b. snd (NewRequest (mockEnv (Inr (loginResponse ''abc'' ''400''))) m
      (Endpoint sessionNewline @ rest) b) = Some ''net/url: invalid control character in URL''"
    using mockParse_newline
    by (simp add: NewRequest_def mockEnv_def sessionNewline_def session1_def session0_def)
  then show ?thesis
    using C9_nil_request_panics [of "mockEnv (Inr (loginResponse ''abc'' ''400''))" sessionNewline
        "''/object/bucket''" None "[]" "''{}''"]
    by simp
qed

end
